theory Spec2Isabelle
  imports Complex_Main
begin

section \<open>JavaScript values\<close>

text \<open>
  The program is a Cloud Function written in TypeScript (compiled output
  \<^verbatim>\<open>src/lib/index.js\<close>, another build in \<^verbatim>\<open>src/lib/test.js\<close>). It handles
  JSON documents, so the embedding starts with the values of the language.

  A JavaScript number is an IEEE-754 binary64 value. \<open>Fin q\<close> is the finite double whose
  exact value is the rational \<open>q\<close>; the two infinities and NaN are values of their own.
  Negative zero is identified with zero: the accumulators of the program start at \<open>+0\<close>,
  a sum of doubles is \<open>-0\<close> only when both operands are, and both zeros print alike.
\<close>

datatype number = Fin rat | PInf | NInf | NaN

datatype json =
    JNull
  | JBool bool
  | JNum number
  | JStr string
  | JArr "json list"
  | JObj "(string \<times> json) list"

subsection \<open>Rounding to binary64\<close>

text \<open>\<open>bit_length n\<close> is the number of binary digits of a positive integer.\<close>

function bit_length :: "int \<Rightarrow> int" where
  "bit_length n = (if n \<le> 0 then 0 else 1 + bit_length (n div 2))"
  by pat_completeness auto
termination
  by (relation "measure nat") auto

declare bit_length.simps [simp del]

definition pow2 :: "int \<Rightarrow> rat" where
  "pow2 p = (if 0 \<le> p then 2 ^ nat p else 1 / 2 ^ nat (- p))"

text \<open>\<open>ilog2 a\<close> is \<open>\<lfloor>log\<^sub>2 a\<rfloor>\<close> for a positive rational \<open>a\<close>.\<close>

definition ilog2 :: "rat \<Rightarrow> int" where
  "ilog2 a = (if 1 \<le> a then bit_length \<lfloor>a\<rfloor> - 1 else - bit_length (\<lceil>1 / a\<rceil> - 1))"

definition round_half_even :: "rat \<Rightarrow> int" where
  "round_half_even q =
     (let f = \<lfloor>q\<rfloor>; d = q - of_int f
      in if d < 1 / 2 then f else if 1 / 2 < d then f + 1 else if even f then f else f + 1)"

text \<open>
  Round to nearest, ties to even, with 53 bits of precision, gradual underflow below
  \<open>2\<^sup>-\<^sup>1\<^sup>0\<^sup>2\<^sup>2\<close> (the unit in the last place is never below \<open>2\<^sup>-\<^sup>1\<^sup>0\<^sup>7\<^sup>4\<close>) and overflow to
  infinity from \<open>2\<^sup>1\<^sup>0\<^sup>2\<^sup>4\<close> on.
\<close>

definition round64 :: "rat \<Rightarrow> number" where
  "round64 q =
     (if q = 0 then Fin 0
      else let a = \<bar>q\<bar>;
               p = max (ilog2 a - 52) (- 1074);
               r = of_int (round_half_even (a / pow2 p)) * pow2 p
           in if 2 ^ 1024 \<le> r then (if q < 0 then NInf else PInf)
              else Fin (if q < 0 then - r else r))"

text \<open>The operator \<^verbatim>\<open>+\<close> on two numbers (and so \<^verbatim>\<open>acc.x += item.y\<close>).\<close>

fun num_add :: "number \<Rightarrow> number \<Rightarrow> number" where
  "num_add (Fin a) (Fin b) = round64 (a + b)"
| "num_add NaN _ = NaN"
| "num_add _ NaN = NaN"
| "num_add PInf NInf = NaN"
| "num_add NInf PInf = NaN"
| "num_add PInf _ = PInf"
| "num_add _ PInf = PInf"
| "num_add NInf _ = NInf"
| "num_add _ NInf = NInf"

subsection \<open>Numbers to strings\<close>

definition digit_char :: "int \<Rightarrow> char" where
  "digit_char d =
     (if d = 0 then CHR ''0'' else if d = 1 then CHR ''1'' else if d = 2 then CHR ''2''
      else if d = 3 then CHR ''3'' else if d = 4 then CHR ''4'' else if d = 5 then CHR ''5''
      else if d = 6 then CHR ''6'' else if d = 7 then CHR ''7'' else if d = 8 then CHR ''8''
      else CHR ''9'')"

text \<open>The decimal digits of a non-negative integer, with no leading zeroes.\<close>

function decimal :: "int \<Rightarrow> string" where
  "decimal n = (if n < 10 then [digit_char n] else decimal (n div 10) @ [digit_char (n mod 10)])"
  by pat_completeness auto
termination
  by (relation "measure nat") auto

declare decimal.simps [simp del]

definition is_integer :: "rat \<Rightarrow> bool" where
  "is_integer q = (of_int \<lfloor>q\<rfloor> = q)"

text \<open>
  \<^verbatim>\<open>Number::toString\<close> (ECMA-262), which a template literal applies to
  \<^verbatim>\<open>${total.sodium}\<close>. For an integer below \<open>2\<^sup>5\<^sup>3\<close> in magnitude the shortest digit
  string that reads back as the same double is the integer's own decimal numeral. For
  every other finite value the standard asks for the shortest round-trip digits and
  leaves the last digit to the implementation; that digit generation is the parameter
  \<open>shortest\<close>, applied to the magnitude.
\<close>

definition Number_toString :: "(rat \<Rightarrow> string) \<Rightarrow> number \<Rightarrow> string" where
  "Number_toString shortest x =
     (case x of
        NaN \<Rightarrow> ''NaN''
      | PInf \<Rightarrow> ''Infinity''
      | NInf \<Rightarrow> ''-Infinity''
      | Fin q \<Rightarrow>
          if q = 0 then ''0''
          else (if q < 0 then ''-'' else []) @
               (if is_integer q \<and> \<bar>q\<bar> < 2 ^ 53 then decimal \<lfloor>\<bar>q\<bar>\<rfloor> else shortest \<bar>q\<bar>))"

text \<open>
  \<^verbatim>\<open>Number.prototype.toFixed(1)\<close> (ECMA-262): a value that is not finite prints as
  \<^verbatim>\<open>Number::toString\<close> does; a magnitude of \<open>10\<^sup>2\<^sup>1\<close> or more prints as
  \<^verbatim>\<open>Number::toString\<close> does too; otherwise \<open>n\<close> is the integer nearest to ten times
  the magnitude (the larger one on a tie), printed with a point before its last digit.
\<close>

definition toFixed1 :: "(rat \<Rightarrow> string) \<Rightarrow> number \<Rightarrow> string" where
  "toFixed1 shortest x =
     (case x of
        Fin q \<Rightarrow>
          (let s = (if q < 0 then ''-'' else []); a = \<bar>q\<bar>
           in if 10 ^ 21 \<le> a then s @ Number_toString shortest (Fin a)
              else let n = \<lfloor>a * 10 + 1 / 2\<rfloor>;
                       m = decimal n;
                       m = (if length m \<le> 1 then replicate (2 - length m) CHR ''0'' @ m else m);
                       k = length m
                   in s @ take (k - 1) m @ ''.'' @ drop (k - 1) m)
      | _ \<Rightarrow> Number_toString shortest x)"

section \<open>Schemas\<close>

text \<open>
  The schemas of the program are data handed to the Zod library: \<^verbatim>\<open>z.string()\<close>,
  \<^verbatim>\<open>z.number()\<close>, \<^verbatim>\<open>z.array(s)\<close> and \<^verbatim>\<open>z.object({k: s, ...})\<close>. A value conforms
  to \<^verbatim>\<open>z.number()\<close> when it is a number other than NaN, and to an object schema when
  it is an object in which every key of the shape holds a conforming value (a missing key
  reads as \<^verbatim>\<open>undefined\<close>, which conforms to none of these schemas; keys outside the
  shape are tolerated). An object is its list of properties, each key at most once;
  \<open>map_of\<close> reads a property.
\<close>

datatype zschema =
    ZString
  | ZNumber
  | ZArray zschema
  | ZObject "(string \<times> zschema) list"

fun conforms :: "zschema \<Rightarrow> json \<Rightarrow> bool" where
  "conforms ZString j = (case j of JStr _ \<Rightarrow> True | _ \<Rightarrow> False)"
| "conforms ZNumber j = (case j of JNum x \<Rightarrow> x \<noteq> NaN | _ \<Rightarrow> False)"
| "conforms (ZArray s) j = (case j of JArr xs \<Rightarrow> list_all (conforms s) xs | _ \<Rightarrow> False)"
| "conforms (ZObject shape) j =
     (case j of
        JObj kvs \<Rightarrow>
          list_all (\<lambda>(k, s). case map_of kvs k of Some v \<Rightarrow> conforms s v | None \<Rightarrow> False) shape
      | _ \<Rightarrow> False)"

text \<open>
  \<^verbatim>\<open>schema.safeParse(data)\<close>: \<^verbatim>\<open>{success: true, data}\<close> or \<^verbatim>\<open>{success: false, error}\<close>.
  Zod returns a copy without the keys outside the shape; the program reads only keys of
  the shape, so the value itself stands for the copy.
\<close>

definition safeParse :: "zschema \<Rightarrow> json \<Rightarrow> json option" where
  "safeParse s j = (if conforms s j then Some j else None)"

text \<open>Lines 26-39 of \<^verbatim>\<open>src/lib/index.js\<close> (lines 23-36 of \<^verbatim>\<open>src/lib/test.js\<close>).\<close>

definition item_shape :: "(string \<times> zschema) list" where
  "item_shape =
     [(''name'', ZString),
      (''calories'', ZString),
      (''serving_size_g'', ZString),
      (''fat_total_g'', ZNumber),
      (''fat_saturated_g'', ZNumber),
      (''protein_g'', ZString),
      (''sodium_mg'', ZNumber),
      (''potassium_mg'', ZNumber),
      (''cholesterol_mg'', ZNumber),
      (''carbohydrates_total_g'', ZNumber),
      (''fiber_g'', ZNumber),
      (''sugar_g'', ZNumber)]"

definition nutritionInformationSchema :: zschema where
  "nutritionInformationSchema = ZArray (ZObject item_shape)"

text \<open>The keys of the item schema by the kind of value they must hold.\<close>

definition number_keys :: "string list" where
  "number_keys = map fst (filter (\<lambda>(k, s). s = ZNumber) item_shape)"

definition string_keys :: "string list" where
  "string_keys = map fst (filter (\<lambda>(k, s). s = ZString) item_shape)"

subsection \<open>Reading validated data\<close>

text \<open>
  \<^verbatim>\<open>item.fat_total_g\<close> on an element of the validated array, where the schema has made
  the property a number. (On a value that is no object, or has no number there, the
  addition that consumes the read would give NaN; validation excludes the case.)
\<close>

definition number_prop :: "json \<Rightarrow> string \<Rightarrow> number" where
  "number_prop j k =
     (case j of
        JObj kvs \<Rightarrow> (case map_of kvs k of Some (JNum x) \<Rightarrow> x | _ \<Rightarrow> NaN)
      | _ \<Rightarrow> NaN)"

definition elements :: "json \<Rightarrow> json list" where
  "elements j = (case j of JArr xs \<Rightarrow> xs | _ \<Rightarrow> [])"

subsection \<open>What a value holds at a key\<close>

text \<open>The two checks the item schema asks of a property, spelled out on the value.\<close>

definition holds_number :: "json \<Rightarrow> string \<Rightarrow> bool" where
  "holds_number j k =
     (case j of
        JObj kvs \<Rightarrow> (case map_of kvs k of Some (JNum x) \<Rightarrow> x \<noteq> NaN | _ \<Rightarrow> False)
      | _ \<Rightarrow> False)"

definition holds_string :: "json \<Rightarrow> string \<Rightarrow> bool" where
  "holds_string j k =
     (case j of
        JObj kvs \<Rightarrow> (case map_of kvs k of Some (JStr s) \<Rightarrow> True | _ \<Rightarrow> False)
      | _ \<Rightarrow> False)"

section \<open>The nutrition tool\<close>

text \<open>
  \<^verbatim>\<open>nutritionFactsTool\<close>, lines 41-97 of \<^verbatim>\<open>src/lib/index.js\<close>. Its surroundings are
  the environment variable it reads, the HTTP client it calls (which resolves with the
  parsed body of the response, or rejects with an error) and the digit generation of the
  JavaScript engine.
\<close>

record request =
  url :: string
  params :: "(string \<times> string) list"
  headers :: "(string \<times> string) list"

record tool_env =
  env_API_NINJA_KEY :: "string option"
  axios_get :: "request \<Rightarrow> string + json"
  shortest_digits :: "rat \<Rightarrow> string"

datatype js_error =
    Error string
  | AxiosError string
  | SyntaxError nat
  | GenerationError string

text \<open>
  What the tool does to the world, in order: the HTTP requests it issues and the lines it
  writes with \<^verbatim>\<open>console.error\<close> (a label, then the error thrown or Zod's report of
  the issues, whose content is not modelled).
\<close>

datatype logged = Thrown js_error | ZodIssues

datatype event =
    HttpGet request
  | ConsoleError string logged

record totals =
  fat :: number
  satFat :: number
  sodium :: number
  cholesterol :: number
  carbs :: number
  sugar :: number
  potassium :: number

text \<open>The callback and the initial value of \<^verbatim>\<open>data.reduce\<close>, lines 72-89.\<close>

definition reducer :: "totals \<Rightarrow> json \<Rightarrow> totals" where
  "reducer acc item =
     (let acc = acc\<lparr>fat := num_add (fat acc) (number_prop item ''fat_total_g'')\<rparr>;
          acc = acc\<lparr>satFat := num_add (satFat acc) (number_prop item ''fat_saturated_g'')\<rparr>;
          acc = acc\<lparr>sodium := num_add (sodium acc) (number_prop item ''sodium_mg'')\<rparr>;
          acc = acc\<lparr>cholesterol := num_add (cholesterol acc) (number_prop item ''cholesterol_mg'')\<rparr>;
          acc = acc\<lparr>carbs := num_add (carbs acc) (number_prop item ''carbohydrates_total_g'')\<rparr>;
          acc = acc\<lparr>sugar := num_add (sugar acc) (number_prop item ''sugar_g'')\<rparr>;
          acc = acc\<lparr>potassium := num_add (potassium acc) (number_prop item ''potassium_mg'')\<rparr>
      in acc)"

definition zero_totals :: totals where
  "zero_totals =
     \<lparr>fat = Fin 0, satFat = Fin 0, sodium = Fin 0, cholesterol = Fin 0,
      carbs = Fin 0, sugar = Fin 0, potassium = Fin 0\<rparr>"

definition sum_totals :: "json list \<Rightarrow> totals" where
  "sum_totals data = foldl reducer zero_totals data"

text \<open>The template literal of line 91; \<open>tot\<close> is the source's \<^verbatim>\<open>total\<close>.\<close>

definition summary :: "(rat \<Rightarrow> string) \<Rightarrow> totals \<Rightarrow> string" where
  "summary d tot =
     ''Total fat: '' @ toFixed1 d (fat tot) @
     ''g, saturated fat: '' @ toFixed1 d (satFat tot) @
     ''g, sodium: '' @ Number_toString d (sodium tot) @
     ''mg, cholesterol: '' @ Number_toString d (cholesterol tot) @
     ''mg, carbs: '' @ toFixed1 d (carbs tot) @
     ''g, sugars: '' @ toFixed1 d (sugar tot) @
     ''g, potassium: '' @ Number_toString d (potassium tot) @
     ''mg.''"

definition nutrition_request :: "string \<Rightarrow> string \<Rightarrow> request" where
  "nutrition_request apiNinjaKey ingredientsList =
     \<lparr>url = ''https://api.api-ninjas.com/v1/nutrition'',
      params = [(''query'', ingredientsList)],
      headers = [(''Content-Type'', ''application/json''), (''X-Api-Key'', apiNinjaKey)]\<rparr>"

text \<open>
  The \<^verbatim>\<open>try\<close> block, lines 52-91: the events so far and either the error thrown
  or the string returned. \<^verbatim>\<open>!apiNinjaKey\<close> holds for \<^verbatim>\<open>undefined\<close> and for the
  empty string.
\<close>

definition try_block :: "tool_env \<Rightarrow> string \<Rightarrow> event list \<times> (js_error + string)" where
  "try_block env ingredientsList =
     (case env_API_NINJA_KEY env of
        None \<Rightarrow> ([], Inl (Error ''API_NINJA_KEY environment variable is not set.''))
      | Some apiNinjaKey \<Rightarrow>
          if apiNinjaKey = [] then
            ([], Inl (Error ''API_NINJA_KEY environment variable is not set.''))
          else
            let req = nutrition_request apiNinjaKey ingredientsList in
            (case axios_get env req of
               Inl rejection \<Rightarrow> ([HttpGet req], Inl (AxiosError rejection))
             | Inr response_data \<Rightarrow>
                 (case safeParse nutritionInformationSchema response_data of
                    None \<Rightarrow>
                      ([HttpGet req, ConsoleError ''Nutrition data validation failed:'' ZodIssues],
                       Inl (Error ''Invalid nutrition data format received from API.''))
                  | Some data \<Rightarrow>
                      ([HttpGet req],
                       Inr (summary (shortest_digits env) (sum_totals (elements data)))))))"

text \<open>The whole callback with its \<^verbatim>\<open>catch\<close>, lines 50-97.\<close>

definition nutritionFactsTool :: "tool_env \<Rightarrow> string \<Rightarrow> event list \<times> (js_error + string)" where
  "nutritionFactsTool env ingredientsList =
     (case try_block env ingredientsList of
        (events, Inl err) \<Rightarrow>
          (events @ [ConsoleError ''Error in nutritionFactsTool:'' (Thrown err)],
           Inl (Error ''Unable to retrieve or process nutrition information.''))
      | (events, Inr s) \<Rightarrow> (events, Inr s))"

subsection \<open>The sums, field by field\<close>

text \<open>
  The keys the callback of \<^verbatim>\<open>reduce\<close> reads, in the order of lines 73-79, and the sum
  of one key as the loop computes it: from \<open>0\<close>, left to right, each addition rounded to
  a double.
\<close>

definition summed_keys :: "string list" where
  "summed_keys =
     [''fat_total_g'', ''fat_saturated_g'', ''sodium_mg'', ''cholesterol_mg'',
      ''carbohydrates_total_g'', ''sugar_g'', ''potassium_mg'']"

definition double_sum :: "string \<Rightarrow> json list \<Rightarrow> number" where
  "double_sum k items = foldl num_add (Fin 0) (map (\<lambda>item. number_prop item k) items)"

definition double_sums :: "json list \<Rightarrow> totals" where
  "double_sums items =
     \<lparr>fat = double_sum ''fat_total_g'' items,
      satFat = double_sum ''fat_saturated_g'' items,
      sodium = double_sum ''sodium_mg'' items,
      cholesterol = double_sum ''cholesterol_mg'' items,
      carbs = double_sum ''carbohydrates_total_g'' items,
      sugar = double_sum ''sugar_g'' items,
      potassium = double_sum ''potassium_mg'' items\<rparr>"

subsection \<open>The summary as the specification words it\<close>

text \<open>
  The specification speaks of the arithmetic sum of a field across all items, of a sum
  rendered with one decimal place, and of an exact integer sum with no rounding. These
  definitions follow its words, over the rationals; they are compared with the program
  below.
\<close>

definition num_value :: "number \<Rightarrow> rat" where
  "num_value x = (case x of Fin q \<Rightarrow> q | _ \<Rightarrow> 0)"

definition field_sum :: "string \<Rightarrow> json list \<Rightarrow> rat" where
  "field_sum k items = sum_list (map (\<lambda>item. num_value (number_prop item k)) items)"

definition one_decimal :: "rat \<Rightarrow> string" where
  "one_decimal q =
     (let n = \<lfloor>\<bar>q\<bar> * 10 + 1 / 2\<rfloor>
      in (if q < 0 then ''-'' else []) @ decimal (n div 10) @ ''.'' @ [digit_char (n mod 10)])"

definition exact_integer :: "rat \<Rightarrow> string" where
  "exact_integer q = (if q < 0 then ''-'' else []) @ decimal \<lfloor>\<bar>q\<bar>\<rfloor>"

definition spec_summary :: "json list \<Rightarrow> string" where
  "spec_summary items =
     ''Total fat: '' @ one_decimal (field_sum ''fat_total_g'' items) @
     ''g, saturated fat: '' @ one_decimal (field_sum ''fat_saturated_g'' items) @
     ''g, sodium: '' @ exact_integer (field_sum ''sodium_mg'' items) @
     ''mg, cholesterol: '' @ exact_integer (field_sum ''cholesterol_mg'' items) @
     ''mg, carbs: '' @ one_decimal (field_sum ''carbohydrates_total_g'' items) @
     ''g, sugars: '' @ one_decimal (field_sum ''sugar_g'' items) @
     ''g, potassium: '' @ exact_integer (field_sum ''potassium_mg'' items) @
     ''mg.''"

text \<open>
  Responses on which no addition of the loop rounds: every summed field of every item is
  an integer, and for each summed key the magnitudes add up to less than \<open>2\<^sup>5\<^sup>3\<close>.
\<close>

definition integer_number :: "number \<Rightarrow> bool" where
  "integer_number x = (case x of Fin q \<Rightarrow> is_integer q | _ \<Rightarrow> False)"

definition integer_fields :: "json list \<Rightarrow> bool" where
  "integer_fields items =
     list_all (\<lambda>k. list_all (\<lambda>item. integer_number (number_prop item k)) items) summed_keys"

definition small_fields :: "json list \<Rightarrow> bool" where
  "small_fields items =
     list_all (\<lambda>k. sum_list (map (\<lambda>item. \<bar>num_value (number_prop item k)\<bar>) items) < 2 ^ 53)
       summed_keys"

subsection \<open>The two builds as modules\<close>

text \<open>
  The engine parses a file as a whole before it runs any statement of it: a file that is
  not a program of the language is refused with a \<^verbatim>\<open>SyntaxError\<close>, and nothing it
  would have defined exists. A build is therefore either that error (with the line it is
  reported at) or the tool the file defines.

  \<^verbatim>\<open>src/lib/index.js\<close> parses, and defines the tool above.

  \<^verbatim>\<open>src/lib/test.js\<close> has the same callback in lines 46-125, and lines 47-83 are those
  of \<^verbatim>\<open>index.js\<close>. The template literal of the \<^verbatim>\<open>return\<close> has lost its back quotes,
  and what the compiler has left of it is lines 84-119: \<^verbatim>\<open>return Total;\<close>, then labelled
  statements and blocks, and last \<^verbatim>\<open>mg.;\<close> on line 119. After the dot of a property
  access the language asks for a name, and a semicolon follows: the file does not parse,
  the module never loads, and its tool is never defined.
\<close>

type_synonym tool = "tool_env \<Rightarrow> string \<Rightarrow> event list \<times> (js_error + string)"

definition index_js :: "js_error + tool" where
  "index_js = Inr nutritionFactsTool"

definition test_js :: "js_error + tool" where
  "test_js = Inl (SyntaxError 119)"

text \<open>Loading a build and calling its tool: the error of the load, or what the call does.\<close>

definition call_tool ::
  "js_error + tool \<Rightarrow> tool_env \<Rightarrow> string \<Rightarrow> js_error + event list \<times> (js_error + string)" where
  "call_tool build env ingredientsList =
     (case build of
        Inl load_error \<Rightarrow> Inl load_error
      | Inr f \<Rightarrow> Inr (f env ingredientsList))"

section \<open>The recipe flow\<close>

text \<open>
  \<^verbatim>\<open>recipesSuggestionFlow\<close>, lines 99-149 of \<^verbatim>\<open>src/lib/index.js\<close>. Genkit checks the
  request against \<^verbatim>\<open>inputSchema\<close>, runs the handler, and checks what the handler
  returned against \<^verbatim>\<open>outputSchema\<close>; a value that fails a check makes the framework
  throw, outside the handler. The model call \<^verbatim>\<open>ai.generate\<close> and
  \<^verbatim>\<open>JSON.stringify\<close> on a caught error belong to the surroundings. The wrapper
  \<^verbatim>\<open>onCallGenkit\<close>, which carries the result or the error of the flow to the client,
  is not part of the model.
\<close>

definition flow_inputSchema :: zschema where
  "flow_inputSchema = ZObject [(''ingredients'', ZArray ZString)]"

definition recipe_shape :: "(string \<times> zschema) list" where
  "recipe_shape =
     [(''title'', ZString),
      (''ingredients'', ZString),
      (''instructions'', ZString),
      (''nutritionInformation'', ZString)]"

definition flow_outputSchema :: zschema where
  "flow_outputSchema =
     ZObject [(''recipes'', ZArray (ZObject recipe_shape)),
              (''healthiestRecommendation'', ZString)]"

record generate_options =
  temperature :: rat
  tools :: "string list"
  prompt :: string

record flow_env =
  generate :: "generate_options \<Rightarrow> js_error + json"
  JSON_stringify :: "js_error \<Rightarrow> string"

datatype flow_error =
    HttpsError string string
  | InputSchemaMismatch
  | OutputSchemaMismatch

text \<open>\<^verbatim>\<open>query.ingredients\<close>: a property of an object (\<^verbatim>\<open>undefined\<close> reads as null here).\<close>

definition property :: "json \<Rightarrow> string \<Rightarrow> json" where
  "property j k =
     (case j of
        JObj kvs \<Rightarrow> (case map_of kvs k of Some v \<Rightarrow> v | None \<Rightarrow> JNull)
      | _ \<Rightarrow> JNull)"

text \<open>
  An array inside a template literal is joined with commas. The input schema has made
  every element a string; \<^verbatim>\<open>null\<close> joins as the empty string, and other values do
  not occur.
\<close>

definition string_elements :: "json \<Rightarrow> string list" where
  "string_elements j = map (\<lambda>e. case e of JStr s \<Rightarrow> s | _ \<Rightarrow> []) (elements j)"

fun join_comma :: "string list \<Rightarrow> string" where
  "join_comma [] = []"
| "join_comma [x] = x"
| "join_comma (x # y # ys) = x @ '','' @ join_comma (y # ys)"

definition dq :: string where "dq = [CHR 0x22]"
definition sq :: string where "sq = [CHR 0x27]"
definition nl :: string where "nl = [CHR 0x0A]"

definition prompt_head :: string where
  "prompt_head =
     ''You are a professional chef and AI assistant. Your task is to generate exactly three recipes based on the provided ingredients: ''"

definition prompt_tail :: string where
  "prompt_tail =
     ''.'' @ nl @
     nl @
     ''                Return your full response as a valid JSON **object** with two properties:'' @ nl @
     ''                1. '' @ dq @ ''recipes'' @ dq @ '': an array of exactly 3 recipe objects.'' @ nl @
     ''                2. '' @ dq @ ''healthiestRecommendation'' @ dq @ '': a string identifying which of the three recipes is the healthiest, with an explanation.'' @ nl @
     nl @
     ''                Each recipe object must include the following 4 string properties:'' @ nl @
     ''                - '' @ dq @ ''title'' @ dq @ '': A concise recipe name.'' @ nl @
     ''                - '' @ dq @ ''ingredients'' @ dq @ '': A comma-separated list of max 8 ingredients with the quantities for 4 people.'' @ nl @
     ''                - '' @ dq @ ''instructions'' @ dq @ '': A single string of a maximum 80 words describing how to cook the recipe.'' @ nl @
     ''                - '' @ dq @ ''nutritionInformation'' @ dq @ '': A string summarizing the key nutrition data for one person (e.g. total fat in grams, sugar, cholesterol, sodium, etc.).'' @ nl @
     nl @
     ''                Use the provided tool '' @ dq @ ''nutritionFactsTool'' @ dq @ '' to fetch nutritional data for each recipe.'' @ nl @
     ''                To call the tool, provide an object with key '' @ dq @ ''ingredientsList'' @ dq @ '' containing all the ingredients and quantities for ony one person, separated by '' @ dq @ ''and'' @ dq @ ''.'' @ nl @
     ''                Example: { '' @ dq @ ''ingredientsList'' @ dq @ '': '' @ dq @ ''150g beef and 200g pumpkin and 50ml heavy cream'' @ dq @ '' }'' @ nl @
     nl @
     ''                For '' @ sq @ ''healthiestRecommendation'' @ sq @ '', compare the recipes based on key metrics like total fat, saturated fat, sodium, sugar, and cholesterol, '' @ nl @
     ''                and also consider the overall nutritional quality of the ingredients.'' @ nl @
     ''                Clearly explain why one recipe is healthier than the others.''"

definition recipes_prompt :: "string list \<Rightarrow> string" where
  "recipes_prompt ingredients = prompt_head @ join_comma ingredients @ prompt_tail"

text \<open>The argument of \<^verbatim>\<open>ai.generate\<close>, lines 118-142.\<close>

definition handler_options :: "json \<Rightarrow> generate_options" where
  "handler_options query =
     \<lparr>temperature = 0,
      tools = [''nutritionFactsTool''],
      prompt = recipes_prompt (string_elements (property query ''ingredients''))\<rparr>"

text \<open>The handler with its \<^verbatim>\<open>try\<close> and \<^verbatim>\<open>catch\<close>, lines 115-148.\<close>

definition flow_handler :: "flow_env \<Rightarrow> json \<Rightarrow> flow_error + json" where
  "flow_handler env query =
     (case generate env (handler_options query) of
        Inl error \<Rightarrow> Inl (HttpsError ''internal'' (JSON_stringify env error))
      | Inr output \<Rightarrow> Inr output)"

text \<open>The flow as Genkit runs it: the two schema checks around the handler.\<close>

definition recipesSuggestionFlow :: "flow_env \<Rightarrow> json \<Rightarrow> flow_error + json" where
  "recipesSuggestionFlow env request_data =
     (if \<not> conforms flow_inputSchema request_data then Inl InputSchemaMismatch
      else case flow_handler env request_data of
             Inl e \<Rightarrow> Inl e
           | Inr output \<Rightarrow>
               if conforms flow_outputSchema output then Inr output
               else Inl OutputSchemaMismatch)"

section \<open>Example data\<close>

text \<open>
  An item of a response, with the texts the service sends for the fields it holds back,
  and surroundings in which the key is set and the service answers with a fixed body.
  None of the examples below reaches the digit generation of the engine, so an empty
  string stands for it.
\<close>

definition premium :: json where
  "premium = JStr ''Only available for premium subscribers.''"

definition nutrition_item ::
  "json \<Rightarrow> number \<Rightarrow> number \<Rightarrow> number \<Rightarrow> number \<Rightarrow> number \<Rightarrow> number \<Rightarrow> number \<Rightarrow> number \<Rightarrow> json" where
  "nutrition_item protein fat_total fat_saturated sod pot chol carbohydrates fiber sug =
     JObj [(''name'', JStr ''beef''),
           (''calories'', premium),
           (''serving_size_g'', premium),
           (''fat_total_g'', JNum fat_total),
           (''fat_saturated_g'', JNum fat_saturated),
           (''protein_g'', protein),
           (''sodium_mg'', JNum sod),
           (''potassium_mg'', JNum pot),
           (''cholesterol_mg'', JNum chol),
           (''carbohydrates_total_g'', JNum carbohydrates),
           (''fiber_g'', JNum fiber),
           (''sugar_g'', JNum sug)]"

definition no_digits :: "rat \<Rightarrow> string" where
  "no_digits q = []"

definition answering :: "json \<Rightarrow> tool_env" where
  "answering body =
     \<lparr>env_API_NINJA_KEY = Some ''secret'',
      axios_get = (\<lambda>req. Inr body),
      shortest_digits = no_digits\<rparr>"

text \<open>The two items of the specification's example (section 8).\<close>

definition spec_example :: json where
  "spec_example =
     JArr [nutrition_item premium (Fin 10) (Fin 2) (Fin 100) (Fin 50) (Fin 5) (Fin 20) (Fin 0) (Fin 3),
           nutrition_item premium (Fin 5) (Fin 1) (Fin 50) (Fin 25) (Fin 2) (Fin 10) (Fin 0) (Fin 1)]"


text \<open>Two items whose fat adds up to \<open>2\<^sup>5\<^sup>3 + 1\<close>, which is not a double.\<close>

definition rounding_example :: json where
  "rounding_example =
     JArr [nutrition_item premium (Fin 9007199254740992) (Fin 0) (Fin 0) (Fin 0) (Fin 0) (Fin 0) (Fin 0) (Fin 0),
           nutrition_item premium (Fin 1) (Fin 0) (Fin 0) (Fin 0) (Fin 0) (Fin 0) (Fin 0) (Fin 0)]"

text \<open>Two items that differ in their fibre only.\<close>

definition fibre_item :: json where
  "fibre_item = nutrition_item premium (Fin 10) (Fin 2) (Fin 100) (Fin 50) (Fin 5) (Fin 20) (Fin 7) (Fin 3)"

definition plain_item :: json where
  "plain_item = nutrition_item premium (Fin 10) (Fin 2) (Fin 100) (Fin 50) (Fin 5) (Fin 20) (Fin 0) (Fin 3)"

text \<open>An item whose protein is a number, as the paid service sends it.\<close>

definition protein_number_item :: json where
  "protein_number_item =
     nutrition_item (JNum (Fin 26)) (Fin 10) (Fin 2) (Fin 100) (Fin 50) (Fin 5) (Fin 20) (Fin 0) (Fin 3)"




text \<open>
  A recipe and a response of the flow as JSON, and surroundings of the flow in which the
  model call has a fixed outcome. \<^verbatim>\<open>JSON.stringify\<close> of an \<^verbatim>\<open>Error\<close> that has no
  enumerable property of its own is \<^verbatim>\<open>{}\<close>.
\<close>

definition recipe_json :: "string \<Rightarrow> string \<Rightarrow> string \<Rightarrow> string \<Rightarrow> json" where
  "recipe_json t i s n =
     JObj [(''title'', JStr t),
           (''ingredients'', JStr i),
           (''instructions'', JStr s),
           (''nutritionInformation'', JStr n)]"

definition response_json :: "json list \<Rightarrow> string \<Rightarrow> json" where
  "response_json recipes h =
     JObj [(''recipes'', JArr recipes), (''healthiestRecommendation'', JStr h)]"

definition request_json :: "string list \<Rightarrow> json" where
  "request_json xs = JObj [(''ingredients'', JArr (map JStr xs))]"

definition empty_braces :: "js_error \<Rightarrow> string" where
  "empty_braces e = ''{}''"

definition replying :: "js_error + json \<Rightarrow> flow_env" where
  "replying outcome = \<lparr>generate = (\<lambda>options. outcome), JSON_stringify = empty_braces\<rparr>"

definition recipe_keys :: "string list" where
  "recipe_keys = map fst recipe_shape"

definition omelette :: json where
  "omelette = recipe_json ''Omelette'' ''8 eggs, 40g butter'' ''Beat the eggs and fry them in butter.''
                ''Total fat: 15.0g, saturated fat: 3.0g''"


text \<open>An output of the model that has recipes and no recommendation.\<close>

definition half_response :: json where
  "half_response = JObj [(''recipes'', JArr [omelette])]"

section \<open>Arithmetic of doubles on integers\<close>

text \<open>
  An integer below \<open>2\<^sup>5\<^sup>3\<close> in magnitude is a double, so a sum of such integers that
  stays below \<open>2\<^sup>5\<^sup>3\<close> is computed without rounding.
\<close>

lemma bit_length_nonneg: "0 \<le> bit_length n"
  by (induction n rule: bit_length.induct) (subst bit_length.simps, simp)

lemma bit_length_pos: "0 < n \<Longrightarrow> 1 \<le> bit_length n"
  using bit_length_nonneg [of "n div 2"] by (subst bit_length.simps) simp

lemma bit_length_le: "n < 2 ^ k \<Longrightarrow> bit_length n \<le> int k"
proof (induction k arbitrary: n)
  case 0
  then show ?case by (subst bit_length.simps) simp
next
  case (Suc k)
  show ?case
  proof (cases "n \<le> 0")
    case True
    then show ?thesis by (subst bit_length.simps) simp
  next
    case False
    from Suc.prems have "n div 2 < 2 ^ k" by simp
    then have "bit_length (n div 2) \<le> int k" by (rule Suc.IH)
    with False show ?thesis by (subst bit_length.simps) simp
  qed
qed

lemma round_half_even_of_int: "round_half_even (of_int k) = k"
  by (simp add: round_half_even_def)

lemma round64_of_int:
  assumes "\<bar>m\<bar> < 2 ^ 53"
  shows "round64 (of_int m) = Fin (of_int m)"
proof (cases "m = 0")
  case True
  then show ?thesis by (simp add: round64_def)
next
  case False
  define a :: int where "a = \<bar>m\<bar>"
  have a: "0 < a" "a < 2 ^ 53" using False assms by (simp_all add: a_def)
  define b where "b = bit_length a"
  have b: "1 \<le> b" "b \<le> 53"
    using bit_length_pos [OF a(1)] bit_length_le [OF a(2)] by (simp_all add: b_def)
  have abs: "\<bar>of_int m :: rat\<bar> = of_int a" by (simp add: a_def)
  have il: "ilog2 (of_int a) = b - 1"
    using a by (simp add: ilog2_def b_def)
  define e where "e = nat (53 - b)"
  have p: "max (ilog2 (of_int a) - 52) (- 1074) = - int e"
    using b by (simp add: il e_def)
  have pw: "pow2 (- int e) = 1 / 2 ^ e"
    by (cases "e = 0") (simp_all add: pow2_def)
  have sc: "(of_int a :: rat) / pow2 (- int e) = of_int (a * 2 ^ e)"
    by (simp add: pw)
  have r: "of_int (round_half_even ((of_int a :: rat) / pow2 (- int e))) * pow2 (- int e) = (of_int a :: rat)"
    unfolding sc round_half_even_of_int by (simp add: pw)
  have small: "\<not> (2 ^ 1024 \<le> (of_int a :: rat))"
  proof -
    have "(of_int a :: rat) < of_int (2 ^ 53)" using a(2) by (simp only: of_int_less_iff)
    also have "\<dots> \<le> 2 ^ 1024" by simp
    finally show ?thesis by simp
  qed
  have sgn: "(if m < 0 then - of_int a else of_int a) = (of_int m :: rat)"
    by (simp add: a_def)
  have "round64 (of_int m) = Fin (if m < 0 then - of_int a else of_int a)"
    using False small by (simp add: round64_def abs p r Let_def)
  then show ?thesis
    by (simp only: sgn)
qed

lemma is_integerE: "is_integer q \<Longrightarrow> q = of_int \<lfloor>q\<rfloor>"
  unfolding is_integer_def by (erule sym)

lemma num_value_Fin [simp]: "num_value (Fin q) = q"
  by (simp add: num_value_def)

lemma is_integer_of_int [simp]: "is_integer (of_int n)"
  by (simp add: is_integer_def)

lemma is_integer_add: "is_integer a \<Longrightarrow> is_integer b \<Longrightarrow> is_integer (a + b)"
  by (metis is_integerE is_integer_of_int of_int_add)

lemma round64_integer:
  assumes "is_integer q" "\<bar>q\<bar> < 2 ^ 53"
  shows "round64 q = Fin q"
proof -
  from assms(1) obtain m where q: "q = of_int m" by (auto dest: is_integerE)
  have "(of_int \<bar>m\<bar> :: rat) < of_int (2 ^ 53)" using assms(2) by (simp add: q)
  then have "\<bar>m\<bar> < 2 ^ 53" by (simp only: of_int_less_iff)
  then show ?thesis unfolding q by (rule round64_of_int)
qed

lemma integer_numberE: "integer_number x \<Longrightarrow> (\<And>q. x = Fin q \<Longrightarrow> is_integer q \<Longrightarrow> P) \<Longrightarrow> P"
  by (cases x) (simp_all add: integer_number_def)

lemma foldl_num_add_exact:
  assumes "is_integer a" "list_all integer_number xs"
    and "\<bar>a\<bar> + sum_list (map (\<lambda>x. \<bar>num_value x\<bar>) xs) < 2 ^ 53"
  shows "foldl num_add (Fin a) xs = Fin (a + sum_list (map num_value xs))"
  using assms
proof (induction xs arbitrary: a)
  case Nil
  then show ?case by simp
next
  case (Cons x xs)
  from Cons.prems(2) have ix: "integer_number x" and ixs: "list_all integer_number xs" by simp_all
  from ix obtain q where x: "x = Fin q" and q: "is_integer q" by (rule integer_numberE)
  have nonneg: "0 \<le> sum_list (map (\<lambda>x. \<bar>num_value x\<bar>) xs)"
    by (rule sum_list_nonneg) auto
  have bound: "\<bar>a + q\<bar> + sum_list (map (\<lambda>x. \<bar>num_value x\<bar>) xs) < 2 ^ 53"
    using Cons.prems(3) by (simp add: x)
  have "\<bar>a + q\<bar> < 2 ^ 53" using bound nonneg by linarith
  then have step: "round64 (a + q) = Fin (a + q)"
    by (rule round64_integer [OF is_integer_add [OF Cons.prems(1) q]])
  have "foldl num_add (Fin (a + q)) xs = Fin (a + q + sum_list (map num_value xs))"
    by (rule Cons.IH [OF is_integer_add [OF Cons.prems(1) q] ixs bound])
  then show ?case by (simp add: step x add.assoc)
qed

lemma abs_sum_list_le: "\<bar>sum_list (map f xs)\<bar> \<le> sum_list (map (\<lambda>x. \<bar>f x :: rat\<bar>) xs)"
proof (induction xs)
  case Nil
  show ?case by simp
next
  case (Cons x xs)
  have "\<bar>f x + sum_list (map f xs)\<bar> \<le> \<bar>f x\<bar> + \<bar>sum_list (map f xs)\<bar>"
    by (rule abs_triangle_ineq)
  with Cons.IH show ?case by simp
qed

lemma is_integer_sum_list: "list_all (\<lambda>x. is_integer (f x)) xs \<Longrightarrow> is_integer (sum_list (map f xs))"
proof (induction xs)
  case Nil
  show ?case using is_integer_of_int [of 0] by simp
next
  case (Cons x xs)
  then show ?case by (simp add: is_integer_add)
qed

section \<open>Printing\<close>

lemma decimal_small: "n < 10 \<Longrightarrow> decimal n = [digit_char n]"
  by (subst decimal.simps) simp

lemma decimal_big: "10 \<le> n \<Longrightarrow> decimal n = decimal (n div 10) @ [digit_char (n mod 10)]"
  by (subst decimal.simps) simp

lemma decimal_nonempty: "decimal n \<noteq> []"
  by (subst decimal.simps) simp

lemma decimal_0: "decimal 0 = ''0''"
  by (simp add: decimal_small digit_char_def)

lemma toFixed1_one_decimal:
  assumes "\<bar>q\<bar> < 10 ^ 21"
  shows "toFixed1 d (Fin q) = one_decimal q"
proof -
  define n where "n = \<lfloor>\<bar>q\<bar> * 10 + 1 / 2\<rfloor>"
  have n0: "0 \<le> n" by (simp add: n_def)
  have small: "\<not> 10 ^ 21 \<le> \<bar>q\<bar>" using assms by simp
  show ?thesis
  proof (cases "n < 10")
    case True
    have d: "decimal n = [digit_char n]" using True by (rule decimal_small)
    have "n div 10 = 0" "n mod 10 = n" using True n0 by simp_all
    then show ?thesis
      using small
      by (simp add: toFixed1_def one_decimal_def Let_def n_def [symmetric] d decimal_0)
  next
    case False
    then have d: "decimal n = decimal (n div 10) @ [digit_char (n mod 10)]"
      by (simp add: decimal_big)
    have len: "\<not> length (decimal (n div 10)) = 0"
      by (simp add: decimal_nonempty)
    show ?thesis
      using small len
      by (simp add: toFixed1_def one_decimal_def Let_def n_def [symmetric] d)
  qed
qed

lemma Number_toString_integer:
  assumes "is_integer q" "\<bar>q\<bar> < 2 ^ 53"
  shows "Number_toString d (Fin q) = exact_integer q"
  using assms by (simp add: Number_toString_def exact_integer_def decimal_0)

section \<open>The loop\<close>

lemma foldl_reducer:
  "foldl reducer acc items =
     \<lparr>fat = foldl num_add (fat acc) (map (\<lambda>item. number_prop item ''fat_total_g'') items),
      satFat = foldl num_add (satFat acc) (map (\<lambda>item. number_prop item ''fat_saturated_g'') items),
      sodium = foldl num_add (sodium acc) (map (\<lambda>item. number_prop item ''sodium_mg'') items),
      cholesterol = foldl num_add (cholesterol acc) (map (\<lambda>item. number_prop item ''cholesterol_mg'') items),
      carbs = foldl num_add (carbs acc) (map (\<lambda>item. number_prop item ''carbohydrates_total_g'') items),
      sugar = foldl num_add (sugar acc) (map (\<lambda>item. number_prop item ''sugar_g'') items),
      potassium = foldl num_add (potassium acc) (map (\<lambda>item. number_prop item ''potassium_mg'') items)\<rparr>"
  by (induction items arbitrary: acc) (simp_all add: reducer_def Let_def)

lemma sum_totals_double_sums: "sum_totals items = double_sums items"
  by (simp add: sum_totals_def double_sums_def double_sum_def foldl_reducer zero_totals_def)

lemma integer_number_value: "integer_number x \<Longrightarrow> is_integer (num_value x)"
  by (erule integer_numberE) simp

lemma double_sum_exact:
  assumes int: "list_all (\<lambda>item. integer_number (number_prop item k)) items"
    and small: "sum_list (map (\<lambda>item. \<bar>num_value (number_prop item k)\<bar>) items) < 2 ^ 53"
  shows "double_sum k items = Fin (field_sum k items)"
    and "is_integer (field_sum k items)"
    and "\<bar>field_sum k items\<bar> < 2 ^ 53"
proof -
  have zero: "is_integer 0" using is_integer_of_int [of 0] by simp
  have "foldl num_add (Fin 0) (map (\<lambda>item. number_prop item k) items) =
        Fin (0 + sum_list (map num_value (map (\<lambda>item. number_prop item k) items)))"
    using int small
    by (intro foldl_num_add_exact zero) (simp_all add: list_all_iff comp_def)
  then show "double_sum k items = Fin (field_sum k items)"
    by (simp add: double_sum_def field_sum_def comp_def)
  have "list_all (\<lambda>item. is_integer (num_value (number_prop item k))) items"
    using int by (simp add: list_all_iff integer_number_value)
  then show "is_integer (field_sum k items)"
    unfolding field_sum_def by (rule is_integer_sum_list)
  have "\<bar>field_sum k items\<bar> \<le> sum_list (map (\<lambda>item. \<bar>num_value (number_prop item k)\<bar>) items)"
    unfolding field_sum_def by (rule abs_sum_list_le)
  with small show "\<bar>field_sum k items\<bar> < 2 ^ 53" by simp
qed

section \<open>The summary of a valid response\<close>

lemma try_block_success:
  assumes "env_API_NINJA_KEY env = Some key" "key \<noteq> []"
    and "axios_get env (nutrition_request key ingredientsList) = Inr data"
    and "conforms nutritionInformationSchema data"
  shows "try_block env ingredientsList =
           ([HttpGet (nutrition_request key ingredientsList)],
            Inr (summary (shortest_digits env) (double_sums (elements data))))"
  using assms by (simp add: try_block_def safeParse_def Let_def sum_totals_double_sums)

lemma tool_success:
  assumes "env_API_NINJA_KEY env = Some key" "key \<noteq> []"
    and "axios_get env (nutrition_request key ingredientsList) = Inr data"
    and "conforms nutritionInformationSchema data"
  shows "nutritionFactsTool env ingredientsList =
           ([HttpGet (nutrition_request key ingredientsList)],
            Inr (summary (shortest_digits env) (double_sums (elements data))))"
  by (simp add: nutritionFactsTool_def try_block_success [OF assms])

lemma summary_exact:
  assumes "integer_fields items" "small_fields items"
  shows "summary d (double_sums items) = spec_summary items"
proof -
  have *: "toFixed1 d (double_sum k items) = one_decimal (field_sum k items)"
          "Number_toString d (double_sum k items) = exact_integer (field_sum k items)"
    if "k \<in> set summed_keys" for k
  proof -
    have int: "list_all (\<lambda>item. integer_number (number_prop item k)) items"
      using assms(1) that by (simp add: integer_fields_def list_all_iff)
    have small: "sum_list (map (\<lambda>item. \<bar>num_value (number_prop item k)\<bar>) items) < 2 ^ 53"
      using assms(2) that by (simp add: small_fields_def list_all_iff)
    note ex = double_sum_exact [OF int small]
    have "\<bar>field_sum k items\<bar> < 10 ^ 21" using ex(3) by simp
    then show "toFixed1 d (double_sum k items) = one_decimal (field_sum k items)"
      by (simp add: ex(1) toFixed1_one_decimal)
    show "Number_toString d (double_sum k items) = exact_integer (field_sum k items)"
      by (simp only: ex(1) Number_toString_integer [OF ex(2) ex(3)])
  qed
  show ?thesis
    by (simp add: summary_def spec_summary_def double_sums_def * summed_keys_def)
qed

lemma conforms_spec_example: "conforms nutritionInformationSchema spec_example"
  by (simp add: nutritionInformationSchema_def spec_example_def nutrition_item_def item_shape_def
      premium_def)

lemma integer_fields_spec_example: "integer_fields (elements spec_example)"
  by (simp add: integer_fields_def summed_keys_def elements_def spec_example_def
      nutrition_item_def number_prop_def integer_number_def is_integer_def)

lemma small_fields_spec_example: "small_fields (elements spec_example)"
  by (simp add: small_fields_def summed_keys_def elements_def spec_example_def
      nutrition_item_def number_prop_def)

lemma spec_summary_spec_example:
  "spec_summary (elements spec_example) =
     ''Total fat: 15.0g, saturated fat: 3.0g, sodium: 150mg, cholesterol: 7mg, carbs: 30.0g, sugars: 4.0g, potassium: 75mg.''"
  by code_simp

lemma double_sums_rounding_example:
  "double_sums (elements rounding_example) =
     \<lparr>fat = Fin 9007199254740992, satFat = Fin 0, sodium = Fin 0, cholesterol = Fin 0,
      carbs = Fin 0, sugar = Fin 0, potassium = Fin 0\<rparr>"
  by code_simp

lemma summary_rounding_example:
  "summary no_digits
     \<lparr>fat = Fin 9007199254740992, satFat = Fin 0, sodium = Fin 0, cholesterol = Fin 0,
      carbs = Fin 0, sugar = Fin 0, potassium = Fin 0\<rparr> =
   ''Total fat: 9007199254740992.0g, saturated fat: 0.0g, sodium: 0mg, cholesterol: 0mg, carbs: 0.0g, sugars: 0.0g, potassium: 0mg.''"
  by code_simp

lemma spec_summary_rounding_example:
  "spec_summary (elements rounding_example) =
   ''Total fat: 9007199254740993.0g, saturated fat: 0.0g, sodium: 0mg, cholesterol: 0mg, carbs: 0.0g, sugars: 0.0g, potassium: 0mg.''"
  by code_simp

lemma conforms_rounding_example: "conforms nutritionInformationSchema rounding_example"
  by (simp add: nutritionInformationSchema_def rounding_example_def nutrition_item_def item_shape_def
      premium_def)

text \<open>
  Claim C1, as the program has it. When the key is set, the request is answered and the
  body conforms to the schema, the tool returns the sentence of line 91 whose seven
  numbers are the sums of the seven fields as doubles compute them (from zero, in the
  order of the items, each addition rounded to nearest), the four of fat, saturated fat,
  carbohydrates and sugar printed by \<^verbatim>\<open>toFixed(1)\<close> and the three of sodium,
  cholesterol and potassium by the plain conversion of a number to a string. When every
  summed field is an integer and the magnitudes of each field add up to less than
  \<open>2\<^sup>5\<^sup>3\<close>, these are the arithmetic sums, the four with one decimal place and the
  three as exact integers, as the specification words it.
\<close>

theorem nutritionFactsTool_summary:
  assumes "env_API_NINJA_KEY env = Some key" "key \<noteq> []"
    and "axios_get env (nutrition_request key ingredientsList) = Inr data"
    and "conforms nutritionInformationSchema data"
  shows "snd (nutritionFactsTool env ingredientsList) =
           Inr (summary (shortest_digits env) (double_sums (elements data))) \<and>
         (integer_fields (elements data) \<and> small_fields (elements data) \<longrightarrow>
            snd (nutritionFactsTool env ingredientsList) = Inr (spec_summary (elements data)))"
  by (simp add: tool_success [OF assms] summary_exact)

text \<open>
  Claim C1 at the two items of the specification's example: the hypotheses hold there
  and the sentence is the one the specification gives.
\<close>

theorem nutritionFactsTool_summary_witness:
  "conforms nutritionInformationSchema spec_example \<and>
   integer_fields (elements spec_example) \<and> small_fields (elements spec_example) \<and>
   snd (nutritionFactsTool (answering spec_example) ''150g beef and 200g pumpkin'') =
     Inr ''Total fat: 15.0g, saturated fat: 3.0g, sodium: 150mg, cholesterol: 7mg, carbs: 30.0g, sugars: 4.0g, potassium: 75mg.''"
proof -
  have key: "env_API_NINJA_KEY (answering spec_example) = Some ''secret''" "''secret'' \<noteq> []"
    by (simp_all add: answering_def)
  have resp: "axios_get (answering spec_example)
                (nutrition_request ''secret'' ''150g beef and 200g pumpkin'') = Inr spec_example"
    by (simp add: answering_def)
  have "snd (nutritionFactsTool (answering spec_example) ''150g beef and 200g pumpkin'') =
          Inr (spec_summary (elements spec_example))"
    using nutritionFactsTool_summary [OF key resp conforms_spec_example]
      integer_fields_spec_example small_fields_spec_example
    by blast
  then have "snd (nutritionFactsTool (answering spec_example) ''150g beef and 200g pumpkin'') =
     Inr ''Total fat: 15.0g, saturated fat: 3.0g, sodium: 150mg, cholesterol: 7mg, carbs: 30.0g, sugars: 4.0g, potassium: 75mg.''"
    by (simp only: spec_summary_spec_example)
  with conforms_spec_example integer_fields_spec_example small_fields_spec_example
  show ?thesis by (intro conjI)
qed

text \<open>
  Claim C1 as stated, for every body the schema accepts, fails where an addition rounds:
  with fat \<open>2\<^sup>5\<^sup>3\<close> and \<open>1\<close> the arithmetic sum is \<open>9007199254740993\<close>, the double
  sum is \<open>9007199254740992\<close>, and that is what the sentence shows.
\<close>

theorem nutritionFactsTool_summary_counterexample:
  "conforms nutritionInformationSchema rounding_example \<and>
   field_sum ''fat_total_g'' (elements rounding_example) = 9007199254740993 \<and>
   snd (nutritionFactsTool (answering rounding_example) ''beef'') =
     Inr ''Total fat: 9007199254740992.0g, saturated fat: 0.0g, sodium: 0mg, cholesterol: 0mg, carbs: 0.0g, sugars: 0.0g, potassium: 0mg.'' \<and>
   snd (nutritionFactsTool (answering rounding_example) ''beef'') \<noteq>
     Inr (spec_summary (elements rounding_example))"
proof -
  have key: "env_API_NINJA_KEY (answering rounding_example) = Some ''secret''" "''secret'' \<noteq> []"
    by (simp_all add: answering_def)
  have resp: "axios_get (answering rounding_example) (nutrition_request ''secret'' ''beef'') =
                Inr rounding_example"
    by (simp add: answering_def)
  have dig: "shortest_digits (answering rounding_example) = no_digits"
    by (simp add: answering_def)
  have sum: "field_sum ''fat_total_g'' (elements rounding_example) = 9007199254740993"
    by (simp add: field_sum_def elements_def rounding_example_def nutrition_item_def number_prop_def)
  have out: "snd (nutritionFactsTool (answering rounding_example) ''beef'') =
     Inr ''Total fat: 9007199254740992.0g, saturated fat: 0.0g, sodium: 0mg, cholesterol: 0mg, carbs: 0.0g, sugars: 0.0g, potassium: 0mg.''"
    by (simp only: tool_success [OF key resp conforms_rounding_example] snd_conv dig
        double_sums_rounding_example summary_rounding_example)
  have "snd (nutritionFactsTool (answering rounding_example) ''beef'') \<noteq>
          Inr (spec_summary (elements rounding_example))"
    unfolding out spec_summary_rounding_example by simp
  with conforms_rounding_example sum out show ?thesis by (intro conjI)
qed

section \<open>The seven sums\<close>

lemma number_keys_eq:
  "number_keys =
     [''fat_total_g'', ''fat_saturated_g'', ''sodium_mg'', ''potassium_mg'', ''cholesterol_mg'',
      ''carbohydrates_total_g'', ''fiber_g'', ''sugar_g'']"
  by (simp add: number_keys_def item_shape_def)

lemma string_keys_eq:
  "string_keys = [''name'', ''calories'', ''serving_size_g'', ''protein_g'']"
  by (simp add: string_keys_def item_shape_def)

lemma double_sum_cong:
  "map (\<lambda>item. number_prop item k) xs = map (\<lambda>item. number_prop item k) ys \<Longrightarrow>
   double_sum k xs = double_sum k ys"
  by (simp add: double_sum_def)

text \<open>
  Claim C2, as the program has it. The loop keeps seven sums, one for each of the seven
  keys it reads; all seven are numeric keys of the schema; the schema has eight numeric
  keys, and the eighth, \<^verbatim>\<open>fiber_g\<close>, is not summed. Two arrays that agree on the seven
  keys have the same totals.
\<close>

theorem sum_totals_seven_fields:
  "sum_totals items =
     \<lparr>fat = double_sum ''fat_total_g'' items,
      satFat = double_sum ''fat_saturated_g'' items,
      sodium = double_sum ''sodium_mg'' items,
      cholesterol = double_sum ''cholesterol_mg'' items,
      carbs = double_sum ''carbohydrates_total_g'' items,
      sugar = double_sum ''sugar_g'' items,
      potassium = double_sum ''potassium_mg'' items\<rparr> \<and>
   length summed_keys = 7 \<and>
   list_all (\<lambda>k. k \<in> set number_keys) summed_keys \<and>
   length number_keys = 8 \<and>
   ''fiber_g'' \<in> set number_keys \<and> ''fiber_g'' \<notin> set summed_keys \<and>
   (list_all (\<lambda>k. map (\<lambda>item. number_prop item k) items = map (\<lambda>item. number_prop item k) items')
      summed_keys \<longrightarrow>
    sum_totals items = sum_totals items')"
proof -
  have tot: "sum_totals xs = double_sums xs" for xs
    by (rule sum_totals_double_sums)
  have "sum_totals items = sum_totals items'"
    if agree: "list_all (\<lambda>k. map (\<lambda>item. number_prop item k) items = map (\<lambda>item. number_prop item k) items')
          summed_keys"
  proof -
    have eq: "double_sum k items = double_sum k items'" if "k \<in> set summed_keys" for k
      using agree that by (intro double_sum_cong) (simp add: list_all_iff)
    show ?thesis
      unfolding tot double_sums_def by (simp add: eq summed_keys_def)
  qed
  then show ?thesis
    by (simp add: tot double_sums_def number_keys_eq) (simp add: summed_keys_def)
qed

text \<open>
  Claim C2 at two items that differ in their fibre only: they agree on the seven keys,
  and the totals are the same.
\<close>

theorem sum_totals_seven_fields_witness:
  "list_all (\<lambda>k. map (\<lambda>item. number_prop item k) [fibre_item] =
                 map (\<lambda>item. number_prop item k) [plain_item]) summed_keys \<and>
   sum_totals [fibre_item] = sum_totals [plain_item]"
proof -
  have agree: "list_all (\<lambda>k. map (\<lambda>item. number_prop item k) [fibre_item] =
                 map (\<lambda>item. number_prop item k) [plain_item]) summed_keys"
    by (simp add: summed_keys_def fibre_item_def plain_item_def nutrition_item_def number_prop_def)
  with sum_totals_seven_fields [of "[fibre_item]" "[plain_item]"]
  have "sum_totals [fibre_item] = sum_totals [plain_item]" by blast
  with agree show ?thesis by (intro conjI)
qed

text \<open>
  Claim C2 as stated speaks of eleven numeric fields. The schema gives an item eight
  numeric keys, the loop reads seven of them, and a change of the eighth leaves the
  totals as they were.
\<close>

theorem sum_totals_eleven_counterexample:
  "length number_keys = 8 \<and> length summed_keys = 7 \<and>
   number_prop fibre_item ''fiber_g'' = Fin 7 \<and> number_prop plain_item ''fiber_g'' = Fin 0 \<and>
   sum_totals [fibre_item] = sum_totals [plain_item]"
  by (simp add: number_keys_eq summed_keys_def sum_totals_double_sums double_sums_def
      double_sum_def fibre_item_def plain_item_def nutrition_item_def number_prop_def)

section \<open>The item schema\<close>

lemma conforms_nutrition_item:
  "conforms (ZObject item_shape) item =
     (list_all (holds_number item) number_keys \<and> list_all (holds_string item) string_keys)"
proof (cases item)
  case (JObj kvs)
  have n: "(case map_of kvs k of None \<Rightarrow> False | Some v \<Rightarrow> conforms ZNumber v) = holds_number item k" for k
    by (auto simp: JObj holds_number_def split: option.splits json.splits)
  have s: "(case map_of kvs k of None \<Rightarrow> False | Some v \<Rightarrow> conforms ZString v) = holds_string item k" for k
    by (auto simp: JObj holds_string_def split: option.splits json.splits)
  show ?thesis
    unfolding number_keys_eq string_keys_eq
    by (simp add: JObj item_shape_def n s) blast
qed (simp_all add: holds_number_def holds_string_def number_keys_eq)

lemma conforms_nutrition_items:
  "list_all (conforms (ZObject item_shape)) items =
     list_all (\<lambda>item. list_all (holds_number item) number_keys \<and>
                         list_all (holds_string item) string_keys) items"
  by (induction items) (simp_all add: conforms_nutrition_item del: conforms.simps)

text \<open>
  Claim C3, as the schema has it. A body is accepted exactly when it is an array and
  every element holds a number (other than NaN) at each of the eight keys
  \<^verbatim>\<open>fat_total_g\<close>, \<^verbatim>\<open>fat_saturated_g\<close>, \<^verbatim>\<open>sodium_mg\<close>, \<^verbatim>\<open>potassium_mg\<close>,
  \<^verbatim>\<open>cholesterol_mg\<close>, \<^verbatim>\<open>carbohydrates_total_g\<close>, \<^verbatim>\<open>fiber_g\<close> and \<^verbatim>\<open>sugar_g\<close>, and a
  string at each of \<^verbatim>\<open>name\<close>, \<^verbatim>\<open>calories\<close>, \<^verbatim>\<open>serving_size_g\<close> and \<^verbatim>\<open>protein_g\<close>:
  one element that misses one of these rejects the whole body. Protein is among the
  strings, not among the numbers.
\<close>

theorem nutrition_schema_fields:
  "safeParse nutritionInformationSchema data =
     (case data of
        JArr items \<Rightarrow>
          if list_all (\<lambda>item. list_all (holds_number item) number_keys \<and>
                               list_all (holds_string item) string_keys) items
          then Some data else None
      | _ \<Rightarrow> None) \<and>
   number_keys =
     [''fat_total_g'', ''fat_saturated_g'', ''sodium_mg'', ''potassium_mg'', ''cholesterol_mg'',
      ''carbohydrates_total_g'', ''fiber_g'', ''sugar_g''] \<and>
   string_keys = [''name'', ''calories'', ''serving_size_g'', ''protein_g'']"
proof -
  have "safeParse nutritionInformationSchema data =
     (case data of
        JArr items \<Rightarrow>
          if list_all (\<lambda>item. list_all (holds_number item) number_keys \<and>
                               list_all (holds_string item) string_keys) items
          then Some data else None
      | _ \<Rightarrow> None)"
    by (cases data)
       (simp_all add: safeParse_def nutritionInformationSchema_def conforms_nutrition_items)
  then show ?thesis
    using number_keys_eq string_keys_eq by (intro conjI)
qed

text \<open>
  Claim C3 as stated counts protein among the numeric fields. An item whose protein is a
  string is accepted, and the same item with a number for its protein rejects the body.
\<close>

theorem nutrition_schema_protein_counterexample:
  "holds_string plain_item ''protein_g'' \<and>
   safeParse nutritionInformationSchema (JArr [plain_item]) = Some (JArr [plain_item]) \<and>
   holds_number protein_number_item ''protein_g'' \<and>
   safeParse nutritionInformationSchema (JArr [protein_number_item]) = None"
  by (simp add: safeParse_def nutritionInformationSchema_def item_shape_def holds_string_def
      holds_number_def plain_item_def protein_number_item_def nutrition_item_def premium_def)

section \<open>Failures of the tool\<close>






section \<open>The empty response\<close>

lemma one_decimal_0: "one_decimal 0 = ''0.0''"
  by code_simp

lemma toFixed1_0: "toFixed1 d (Fin 0) = ''0.0''"
  by (simp add: toFixed1_one_decimal one_decimal_0)

lemma Number_toString_0: "Number_toString d (Fin 0) = ''0''"
  by (simp add: Number_toString_def)

lemma summary_no_items:
  "summary d (double_sums []) =
     ''Total fat: 0.0g, saturated fat: 0.0g, sodium: 0mg, cholesterol: 0mg, carbs: 0.0g, sugars: 0.0g, potassium: 0mg.''"
  by (simp add: summary_def double_sums_def double_sum_def toFixed1_0 Number_toString_0)

text \<open>
  Claim C10. When the key is set and the service answers with the empty array, the
  schema accepts the body and the tool returns the sentence with every sum at zero.
\<close>

theorem empty_array_summary:
  assumes "env_API_NINJA_KEY env = Some key" "key \<noteq> []"
    and "axios_get env (nutrition_request key ingredientsList) = Inr (JArr [])"
  shows "safeParse nutritionInformationSchema (JArr []) = Some (JArr []) \<and>
         nutritionFactsTool env ingredientsList =
           ([HttpGet (nutrition_request key ingredientsList)],
            Inr ''Total fat: 0.0g, saturated fat: 0.0g, sodium: 0mg, cholesterol: 0mg, carbs: 0.0g, sugars: 0.0g, potassium: 0mg.'')"
proof -
  have c: "conforms nutritionInformationSchema (JArr [])"
    by (simp add: nutritionInformationSchema_def)
  have "nutritionFactsTool env ingredientsList =
          ([HttpGet (nutrition_request key ingredientsList)],
           Inr (summary (shortest_digits env) (double_sums (elements (JArr [])))))"
    by (rule tool_success [OF assms c])
  then show ?thesis
    by (simp add: c safeParse_def elements_def summary_no_items)
qed

text \<open>Claim C10 in surroundings where the key is set and the body is the empty array.\<close>

theorem empty_array_summary_witness:
  "env_API_NINJA_KEY (answering (JArr [])) = Some ''secret'' \<and>
   axios_get (answering (JArr [])) (nutrition_request ''secret'' ''water'') = Inr (JArr []) \<and>
   snd (nutritionFactsTool (answering (JArr [])) ''water'') =
     Inr ''Total fat: 0.0g, saturated fat: 0.0g, sodium: 0mg, cholesterol: 0mg, carbs: 0.0g, sugars: 0.0g, potassium: 0mg.''"
proof -
  have k: "env_API_NINJA_KEY (answering (JArr [])) = Some ''secret''" "''secret'' \<noteq> []"
    by (simp_all add: answering_def)
  have a: "axios_get (answering (JArr [])) (nutrition_request ''secret'' ''water'') = Inr (JArr [])"
    by (simp add: answering_def)
  from empty_array_summary [OF k a]
  have "snd (nutritionFactsTool (answering (JArr [])) ''water'') =
     Inr ''Total fat: 0.0g, saturated fat: 0.0g, sodium: 0mg, cholesterol: 0mg, carbs: 0.0g, sugars: 0.0g, potassium: 0mg.''"
    by simp
  with k(1) a show ?thesis by (intro conjI)
qed

section \<open>The two builds\<close>

lemma nutritionFactsTool_spec_example:
  "nutritionFactsTool (answering spec_example) ingredientsList =
     ([HttpGet (nutrition_request ''secret'' ingredientsList)],
      Inr ''Total fat: 15.0g, saturated fat: 3.0g, sodium: 150mg, cholesterol: 7mg, carbs: 30.0g, sugars: 4.0g, potassium: 75mg.'')"
proof -
  have key: "env_API_NINJA_KEY (answering spec_example) = Some ''secret''" "''secret'' \<noteq> []"
    by (simp_all add: answering_def)
  have resp: "axios_get (answering spec_example) (nutrition_request ''secret'' ingredientsList) =
                Inr spec_example"
    by (simp add: answering_def)
  show ?thesis
    by (simp only: tool_success [OF key resp conforms_spec_example]
        summary_exact [OF integer_fields_spec_example small_fields_spec_example]
        spec_summary_spec_example)
qed

text \<open>
  Claim C9 does not hold of the two builds. \<^verbatim>\<open>index.js\<close> loads, and on the example of
  the specification its tool issues the request and returns the sentence. \<^verbatim>\<open>test.js\<close>
  does not load: the call ends in the syntax error of line 119, with no request, no
  sentence and no error of the tool's own.
\<close>

theorem builds_differ_on_spec_example:
  "call_tool index_js (answering spec_example) ''150g beef and 200g pumpkin'' =
     Inr ([HttpGet (nutrition_request ''secret'' ''150g beef and 200g pumpkin'')],
          Inr ''Total fat: 15.0g, saturated fat: 3.0g, sodium: 150mg, cholesterol: 7mg, carbs: 30.0g, sugars: 4.0g, potassium: 75mg.'') \<and>
   call_tool test_js (answering spec_example) ''150g beef and 200g pumpkin'' =
     Inl (SyntaxError 119)"
  by (simp add: call_tool_def index_js_def test_js_def nutritionFactsTool_spec_example)

section \<open>The schemas of the flow\<close>

lemma conforms_recipe:
  "conforms (ZObject recipe_shape) r = list_all (holds_string r) recipe_keys"
proof (cases r)
  case (JObj kvs)
  have s: "(case map_of kvs k of None \<Rightarrow> False | Some v \<Rightarrow> conforms ZString v) = holds_string r k" for k
    by (auto simp: JObj holds_string_def split: option.splits json.splits)
  show ?thesis
    by (simp add: JObj recipe_keys_def recipe_shape_def s)
qed (simp_all add: holds_string_def recipe_keys_def recipe_shape_def)

lemma conforms_recipes:
  "list_all (conforms (ZObject recipe_shape)) rs = list_all (\<lambda>r. list_all (holds_string r) recipe_keys) rs"
  by (induction rs) (simp_all add: conforms_recipe del: conforms.simps)

lemma conforms_flow_outputSchema:
  "conforms flow_outputSchema out =
     (holds_string out ''healthiestRecommendation'' \<and>
      (case property out ''recipes'' of
         JArr rs \<Rightarrow> list_all (\<lambda>r. list_all (holds_string r) recipe_keys) rs
       | _ \<Rightarrow> False))"
proof (cases out)
  case (JObj kvs)
  have arr: "conforms (ZArray (ZObject recipe_shape)) v =
               (case v of JArr rs \<Rightarrow> list_all (\<lambda>r. list_all (holds_string r) recipe_keys) rs
                | _ \<Rightarrow> False)" for v
    by (cases v) (simp_all add: conforms_recipes del: conforms.simps(4))
  have "conforms flow_outputSchema (JObj kvs) =
          ((case map_of kvs ''recipes'' of
              Some v \<Rightarrow> conforms (ZArray (ZObject recipe_shape)) v | None \<Rightarrow> False) \<and>
           (case map_of kvs ''healthiestRecommendation'' of
              Some v \<Rightarrow> conforms ZString v | None \<Rightarrow> False))"
    by (simp add: flow_outputSchema_def del: conforms.simps(3))
  then show ?thesis
    unfolding JObj arr
    by (auto simp: holds_string_def property_def split: option.splits json.splits)
qed (simp_all add: flow_outputSchema_def holds_string_def)

lemma holds_string_recipe_json: "list_all (holds_string (recipe_json t i s n)) recipe_keys"
  by (simp add: recipe_json_def recipe_keys_def recipe_shape_def holds_string_def)

lemma conforms_response_json:
  "conforms flow_outputSchema (response_json (map (\<lambda>(t, i, s, n). recipe_json t i s n) recipes) h)"
proof -
  have "holds_string (response_json rs h) ''healthiestRecommendation''" for rs
    by (simp add: response_json_def holds_string_def)
  moreover have "property (response_json rs h) ''recipes'' = JArr rs" for rs
    by (simp add: response_json_def property_def)
  moreover have "list_all (\<lambda>r. list_all (holds_string r) recipe_keys)
                   (map (\<lambda>(t, i, s, n). recipe_json t i s n) recipes)"
    by (induction recipes) (simp_all add: holds_string_recipe_json split_beta)
  ultimately show ?thesis
    by (simp add: conforms_flow_outputSchema)
qed

lemma conforms_request_json: "conforms flow_inputSchema (request_json xs)"
  by (simp add: flow_inputSchema_def request_json_def list_all_iff)

lemma recipesSuggestionFlow_cases:
  assumes "conforms flow_inputSchema input"
  shows "recipesSuggestionFlow env input =
           (case generate env (handler_options input) of
              Inl error \<Rightarrow> Inl (HttpsError ''internal'' (JSON_stringify env error))
            | Inr output \<Rightarrow>
                if conforms flow_outputSchema output then Inr output
                else Inl OutputSchemaMismatch)"
  using assms by (simp add: recipesSuggestionFlow_def flow_handler_def split: sum.splits)

text \<open>
  Claim C6. The output schema asks for a string at \<^verbatim>\<open>healthiestRecommendation\<close> and
  for an array at \<^verbatim>\<open>recipes\<close> whose elements hold a string at each of the four keys
  \<^verbatim>\<open>title\<close>, \<^verbatim>\<open>ingredients\<close>, \<^verbatim>\<open>instructions\<close> and \<^verbatim>\<open>nutritionInformation\<close>, and for
  nothing else: a response made of any list of such recipes conforms, whatever its
  length, and the flow returns it when the model produces it.
\<close>

theorem output_schema_any_count:
  "conforms flow_outputSchema out =
     (holds_string out ''healthiestRecommendation'' \<and>
      (case property out ''recipes'' of
         JArr rs \<Rightarrow>
           list_all (\<lambda>r. list_all (holds_string r)
                            [''title'', ''ingredients'', ''instructions'', ''nutritionInformation'']) rs
       | _ \<Rightarrow> False)) \<and>
   conforms flow_outputSchema
     (response_json (map (\<lambda>(t, i, s, n). recipe_json t i s n) recipes) h) \<and>
   (conforms flow_inputSchema input \<and>
    generate env (handler_options input) =
      Inr (response_json (map (\<lambda>(t, i, s, n). recipe_json t i s n) recipes) h) \<longrightarrow>
    recipesSuggestionFlow env input =
      Inr (response_json (map (\<lambda>(t, i, s, n). recipe_json t i s n) recipes) h))"
proof -
  have keys: "recipe_keys = [''title'', ''ingredients'', ''instructions'', ''nutritionInformation'']"
    by (simp add: recipe_keys_def recipe_shape_def)
  show ?thesis
    using conforms_flow_outputSchema [of out, unfolded keys]
    by (simp add: conforms_response_json recipesSuggestionFlow_cases)
qed

text \<open>
  Claim C6 at a response with no recipe and at one with five: both conform, and the flow
  returns the five.
\<close>

theorem output_schema_any_count_witness:
  "conforms flow_outputSchema (response_json [] ''Nothing to compare.'') \<and>
   conforms flow_outputSchema
     (response_json [omelette, omelette, omelette, omelette, omelette] ''They are all alike.'') \<and>
   recipesSuggestionFlow
     (replying (Inr (response_json [omelette, omelette, omelette, omelette, omelette]
                       ''They are all alike.'')))
     (request_json [''egg'', ''butter'']) =
   Inr (response_json [omelette, omelette, omelette, omelette, omelette] ''They are all alike.'')"
proof -
  define o5 where "o5 = replicate 5 (''Omelette'', ''8 eggs, 40g butter'',
     ''Beat the eggs and fry them in butter.'', ''Total fat: 15.0g, saturated fat: 3.0g'')"
  have five: "map (\<lambda>(t, i, s, n). recipe_json t i s n) o5 =
                [omelette, omelette, omelette, omelette, omelette]"
    by (simp add: o5_def omelette_def numeral_eq_Suc)
  have g: "generate (replying (Inr r)) (handler_options (request_json [''egg'', ''butter''])) = Inr r" for r
    by (simp add: replying_def)
  note t0 = output_schema_any_count [of _ "[]" "''Nothing to compare.''"]
  note t5 = output_schema_any_count [of _ o5 "''They are all alike.''"
      "request_json [''egg'', ''butter'']"
      "replying (Inr (response_json [omelette, omelette, omelette, omelette, omelette]
                       ''They are all alike.''))"]
  have a: "conforms flow_outputSchema (response_json [] ''Nothing to compare.'')"
    using t0 [THEN conjunct2, THEN conjunct1] by simp
  have b: "conforms flow_outputSchema
     (response_json [omelette, omelette, omelette, omelette, omelette] ''They are all alike.'')"
    using t5 unfolding five by blast
  have c: "recipesSuggestionFlow
     (replying (Inr (response_json [omelette, omelette, omelette, omelette, omelette]
                       ''They are all alike.'')))
     (request_json [''egg'', ''butter'']) =
   Inr (response_json [omelette, omelette, omelette, omelette, omelette] ''They are all alike.'')"
    using t5 conforms_request_json g unfolding five by blast
  from a b c show ?thesis by (intro conjI)
qed

lemma string_elements_request_json:
  "string_elements (property (request_json xs) ''ingredients'') = xs"
  by (simp add: request_json_def property_def string_elements_def elements_def comp_def)

text \<open>
  Claim C7. A request whose \<^verbatim>\<open>ingredients\<close> is a list of strings passes the input
  schema, the empty list included, and the handler reads back the very list that was
  sent. For the empty list the flow goes on to the model call as for any other: the
  prompt joins no ingredient between its two fixed parts, and the result of the flow is
  what the call and the output check make of it.
\<close>

theorem empty_ingredients_pass_through:
  "conforms flow_inputSchema (JObj [(''ingredients'', JArr (map JStr xs))]) \<and>
   string_elements (property (JObj [(''ingredients'', JArr (map JStr xs))]) ''ingredients'') = xs \<and>
   conforms flow_inputSchema (JObj [(''ingredients'', JArr [])]) \<and>
   handler_options (JObj [(''ingredients'', JArr [])]) =
     \<lparr>temperature = 0, tools = [''nutritionFactsTool''], prompt = prompt_head @ prompt_tail\<rparr> \<and>
   recipesSuggestionFlow env (JObj [(''ingredients'', JArr [])]) =
     (case generate env
             \<lparr>temperature = 0, tools = [''nutritionFactsTool''],
              prompt = prompt_head @ prompt_tail\<rparr> of
        Inl error \<Rightarrow> Inl (HttpsError ''internal'' (JSON_stringify env error))
      | Inr out \<Rightarrow> if conforms flow_outputSchema out then Inr out else Inl OutputSchemaMismatch)"
proof -
  have opts: "handler_options (JObj [(''ingredients'', JArr [])]) =
     \<lparr>temperature = 0, tools = [''nutritionFactsTool''], prompt = prompt_head @ prompt_tail\<rparr>"
    using string_elements_request_json [of "[]"]
    by (simp add: handler_options_def recipes_prompt_def request_json_def)
  have c: "conforms flow_inputSchema (JObj [(''ingredients'', JArr [])])"
    using conforms_request_json [of "[]"] by (simp add: request_json_def)
  from recipesSuggestionFlow_cases [OF c, of env]
  have "recipesSuggestionFlow env (JObj [(''ingredients'', JArr [])]) =
     (case generate env
             \<lparr>temperature = 0, tools = [''nutritionFactsTool''],
              prompt = prompt_head @ prompt_tail\<rparr> of
        Inl error \<Rightarrow> Inl (HttpsError ''internal'' (JSON_stringify env error))
      | Inr out \<Rightarrow> if conforms flow_outputSchema out then Inr out else Inl OutputSchemaMismatch)"
    by (simp only: opts)
  with opts c conforms_request_json [of xs] string_elements_request_json [of xs]
  show ?thesis
    unfolding request_json_def by (intro conjI)
qed

section \<open>Failures of the flow\<close>

text \<open>
  Claim C8, as the program has it. For a request that passes the input schema: when the
  model call throws, the flow throws one \<^verbatim>\<open>HttpsError\<close> with the code
  \<^verbatim>\<open>internal\<close> whose message is \<^verbatim>\<open>JSON.stringify\<close> of what was caught; when the
  call returns a value that the output schema refuses, the handler has already returned
  and the check of the framework throws, outside the \<^verbatim>\<open>try\<close> of lines 116-148; and
  whatever the flow returns conforms to the output schema.
\<close>

theorem flow_failures:
  assumes "conforms flow_inputSchema input"
  shows "(generate env (handler_options input) = Inl err \<longrightarrow>
            recipesSuggestionFlow env input =
              Inl (HttpsError ''internal'' (JSON_stringify env err))) \<and>
         (generate env (handler_options input) = Inr out \<and> \<not> conforms flow_outputSchema out \<longrightarrow>
            flow_handler env input = Inr out \<and>
            recipesSuggestionFlow env input = Inl OutputSchemaMismatch) \<and>
         (recipesSuggestionFlow env input = Inr out \<longrightarrow>
            generate env (handler_options input) = Inr out \<and> conforms flow_outputSchema out)"
  using assms
  by (auto simp: recipesSuggestionFlow_def flow_handler_def split: sum.splits if_splits)

text \<open>
  Claim C8 where the model call throws: the flow throws the internal error, and its
  message is what \<^verbatim>\<open>JSON.stringify\<close> makes of the error.
\<close>

theorem flow_failures_witness:
  "conforms flow_inputSchema (request_json [''egg'', ''butter'']) \<and>
   generate (replying (Inl (GenerationError ''quota exceeded'')))
     (handler_options (request_json [''egg'', ''butter''])) =
     Inl (GenerationError ''quota exceeded'') \<and>
   recipesSuggestionFlow (replying (Inl (GenerationError ''quota exceeded'')))
     (request_json [''egg'', ''butter'']) =
     Inl (HttpsError ''internal'' ''{}'')"
proof -
  have g: "generate (replying (Inl (GenerationError ''quota exceeded'')))
     (handler_options (request_json [''egg'', ''butter''])) =
     Inl (GenerationError ''quota exceeded'')"
    by (simp add: replying_def)
  have j: "JSON_stringify (replying (Inl (GenerationError ''quota exceeded'')))
             (GenerationError ''quota exceeded'') = ''{}''"
    by (simp add: replying_def empty_braces_def)
  from flow_failures [OF conforms_request_json, of _ "[''egg'', ''butter'']"] g
  have "recipesSuggestionFlow (replying (Inl (GenerationError ''quota exceeded'')))
     (request_json [''egg'', ''butter'']) =
     Inl (HttpsError ''internal''
       (JSON_stringify (replying (Inl (GenerationError ''quota exceeded'')))
          (GenerationError ''quota exceeded'')))"
    by blast
  then have "recipesSuggestionFlow (replying (Inl (GenerationError ''quota exceeded'')))
     (request_json [''egg'', ''butter'']) = Inl (HttpsError ''internal'' ''{}'')"
    by (simp only: j)
  with conforms_request_json g show ?thesis by (intro conjI)
qed

text \<open>
  Claim C8 as stated has the failure of the output check surface as the internal error
  with the detail in its message. When the model returns recipes and no recommendation,
  the handler returns that value without throwing, and the flow fails with the
  framework's own error for a value that does not match the schema.
\<close>

theorem flow_failures_counterexample:
  "conforms flow_inputSchema (request_json [''egg'', ''butter'']) \<and>
   \<not> conforms flow_outputSchema half_response \<and>
   flow_handler (replying (Inr half_response)) (request_json [''egg'', ''butter'']) =
     Inr half_response \<and>
   recipesSuggestionFlow (replying (Inr half_response)) (request_json [''egg'', ''butter'']) =
     Inl OutputSchemaMismatch"
proof -
  have n: "\<not> conforms flow_outputSchema half_response"
    by (simp add: conforms_flow_outputSchema half_response_def holds_string_def)
  have h: "flow_handler (replying (Inr half_response)) (request_json [''egg'', ''butter'']) =
     Inr half_response"
    by (simp add: flow_handler_def replying_def)
  have "recipesSuggestionFlow (replying (Inr half_response)) (request_json [''egg'', ''butter'']) =
     Inl OutputSchemaMismatch"
    by (simp add: recipesSuggestionFlow_def h n conforms_request_json)
  with conforms_request_json n h show ?thesis by (intro conjI)
qed

end
